theory Spec2Isabelle
  imports Main
begin

section \<open>Shared value types\<close>

text \<open>
  Go's \<^verbatim>\<open>int\<close> fields are identifiers and version numbers; the code below only
  copies and compares them, so they are modelled as \<^typ>\<open>int\<close>.  A \<^verbatim>\<open>time.Time\<close>
  is an instant counted from Go's zero time, so that \<open>0\<close> is the zero value
  \<^verbatim>\<open>time.Time{}\<close>.  Go's \<^verbatim>\<open>error\<close> interface is a datatype of the failures that
  occur in the modelled code.  \<open>ReleaseConflict\<close> is the error that the spec's
  taxonomy names for a concurrent release; no function of the source constructs it.
\<close>

type_synonym Time = int

datatype error =
    ErrMissingWhereClause
  | ErrDuplicatedKey
  | ValidationErrors string
  | DBError string
  | AccountError string
  | MessageError string
  | ReleaseConflict

section \<open>pkg/app: the export form of an application (app\_dto\_for\_export.go)\<close>

text \<open>
  The declaration of \<^verbatim>\<open>AppDto\<close> is outside the given sources.  The record has the
  fields that \<^verbatim>\<open>NewAppDtoForExport\<close> and \<^verbatim>\<open>ReleaseKVStateByApp\<close> read, and the
  deployment flag that \<^verbatim>\<open>AppDtoForExport\<close> mirrors.  The types of \<^verbatim>\<open>uuid.UUID\<close>,
  of the \<^verbatim>\<open>*repository.AppConfig\<close> pointer and of \<^verbatim>\<open>AppActivity\<close> are type
  parameters: the code only copies these values.
\<close>

record ('uid, 'cfg, 'act) AppDto =
  app_ID :: int
  app_UID :: 'uid
  app_TeamID :: int
  app_Name :: string
  app_ReleaseVersion :: int
  app_MainlineVersion :: int
  app_Deployed :: bool
  app_Config :: 'cfg
  app_CreatedBy :: int
  app_CreatedAt :: Time
  app_UpdatedBy :: int
  app_UpdatedAt :: Time
  app_AppActivity :: 'act

record ('uid, 'cfg, 'act) AppDtoForExport =
  exp_ID :: string
  exp_UID :: 'uid
  exp_TeamID :: string
  exp_Name :: string
  exp_ReleaseVersion :: int
  exp_MainlineVersion :: int
  exp_Deployed :: bool
  exp_Config :: 'cfg
  exp_CreatedBy :: string
  exp_CreatedAt :: Time
  exp_UpdatedBy :: string
  exp_UpdatedAt :: Time
  exp_AppActivity :: 'act

text \<open>
  \<^verbatim>\<open>NewAppDtoForExport\<close>.  \<^verbatim>\<open>idconvertor.ConvertIntToString\<close> is outside the given
  sources and is the parameter \<open>ConvertIntToString\<close>.  The composite literal of the
  source names no \<^verbatim>\<open>Deployed\<close> field, so Go gives it the zero value \<^verbatim>\<open>false\<close>.
\<close>

definition NewAppDtoForExport ::
  "(int \<Rightarrow> string) \<Rightarrow> ('uid, 'cfg, 'act) AppDto \<Rightarrow> ('uid, 'cfg, 'act) AppDtoForExport"
where
  "NewAppDtoForExport ConvertIntToString a =
     \<lparr> exp_ID = ConvertIntToString (app_ID a),
       exp_UID = app_UID a,
       exp_TeamID = ConvertIntToString (app_TeamID a),
       exp_Name = app_Name a,
       exp_ReleaseVersion = app_ReleaseVersion a,
       exp_MainlineVersion = app_MainlineVersion a,
       exp_Deployed = False,
       exp_Config = app_Config a,
       exp_CreatedBy = ConvertIntToString (app_CreatedBy a),
       exp_CreatedAt = app_CreatedAt a,
       exp_UpdatedBy = ConvertIntToString (app_UpdatedBy a),
       exp_UpdatedAt = app_UpdatedAt a,
       exp_AppActivity = app_AppActivity a \<rparr>"

section \<open>internal/repository: TreeState and its repository (part\_000)\<close>

record TreeState =
  ts_ID :: int
  ts_StateType :: int
  ts_ParentNodeRefID :: int
  ts_ChildrenNodeRefIDs :: int
  ts_AppRefID :: int
  ts_Version :: int
  ts_Name :: string
  ts_Content :: string
  ts_CreatedAt :: Time
  ts_CreatedBy :: int
  ts_UpdatedAt :: Time
  ts_UpdatedBy :: int

text \<open>
  The \<^verbatim>\<open>gorm\<close> tags of the struct name the column and the column type of each
  field.  \<open>TreeState_values\<close> is the row that gorm writes for a record: one value per
  tagged field, of the tagged column type (\<^verbatim>\<open>bigserial\<close> and \<^verbatim>\<open>bigint\<close> are
  64-bit integers).
\<close>

datatype sql_value = Bigint int | Text string | Jsonb string | Timestamp Time

definition TreeState_values :: "TreeState \<Rightarrow> (string \<times> sql_value) list" where
  "TreeState_values t =
     [ (''id'', Bigint (ts_ID t)),
       (''state_type'', Bigint (ts_StateType t)),
       (''parent_node_ref_id'', Bigint (ts_ParentNodeRefID t)),
       (''children_node_ref_ids'', Bigint (ts_ChildrenNodeRefIDs t)),
       (''app_ref_id'', Bigint (ts_AppRefID t)),
       (''version'', Bigint (ts_Version t)),
       (''name'', Text (ts_Name t)),
       (''content'', Jsonb (ts_Content t)),
       (''created_at'', Timestamp (ts_CreatedAt t)),
       (''created_by'', Bigint (ts_CreatedBy t)),
       (''updated_at'', Timestamp (ts_UpdatedAt t)),
       (''updated_by'', Bigint (ts_UpdatedBy t)) ]"

text \<open>
  The database behind \<^verbatim>\<open>*gorm.DB\<close> is a table of rows.  A persistence failure is
  modelled by \<open>failing\<close>: \<open>Some n\<close> means that the database answers \<open>n\<close> more
  statements and fails every later one; \<open>None\<close> means that it never fails.
  \<open>gorm_stmt\<close> runs one statement against that budget.
\<close>

record 'r table =
  rows :: "'r list"
  failing :: "nat option"

definition gorm_stmt :: "'r table \<Rightarrow> 'r table option" where
  "gorm_stmt db =
     (case failing db of
        None \<Rightarrow> Some db
      | Some 0 \<Rightarrow> None
      | Some (Suc n) \<Rightarrow> Some (db\<lparr>failing := Some n\<rparr>))"

text \<open>
  \<^verbatim>\<open>db.Model(m).Updates(v)\<close> of gorm.io/gorm with a struct \<open>v\<close>, as the library
  documents it: the statement selects the rows whose primary key is that of \<open>m\<close>
  and fails with \<^verbatim>\<open>ErrMissingWhereClause\<close> when that key is zero; it assigns the
  fields of \<open>v\<close> that are not the zero value of their type and leaves the other
  columns alone; and it sets the \<^verbatim>\<open>UpdatedAt\<close> column to the current time \<open>now\<close>.
\<close>

definition gorm_assign_nonzero :: "Time \<Rightarrow> TreeState \<Rightarrow> TreeState \<Rightarrow> TreeState" where
  "gorm_assign_nonzero now v r =
     \<lparr> ts_ID = (if ts_ID v = 0 then ts_ID r else ts_ID v),
       ts_StateType = (if ts_StateType v = 0 then ts_StateType r else ts_StateType v),
       ts_ParentNodeRefID =
         (if ts_ParentNodeRefID v = 0 then ts_ParentNodeRefID r else ts_ParentNodeRefID v),
       ts_ChildrenNodeRefIDs =
         (if ts_ChildrenNodeRefIDs v = 0 then ts_ChildrenNodeRefIDs r
          else ts_ChildrenNodeRefIDs v),
       ts_AppRefID = (if ts_AppRefID v = 0 then ts_AppRefID r else ts_AppRefID v),
       ts_Version = (if ts_Version v = 0 then ts_Version r else ts_Version v),
       ts_Name = (if ts_Name v = [] then ts_Name r else ts_Name v),
       ts_Content = (if ts_Content v = [] then ts_Content r else ts_Content v),
       ts_CreatedAt = (if ts_CreatedAt v = 0 then ts_CreatedAt r else ts_CreatedAt v),
       ts_CreatedBy = (if ts_CreatedBy v = 0 then ts_CreatedBy r else ts_CreatedBy v),
       ts_UpdatedAt = now,
       ts_UpdatedBy = (if ts_UpdatedBy v = 0 then ts_UpdatedBy r else ts_UpdatedBy v) \<rparr>"

definition gorm_Updates ::
  "Time \<Rightarrow> TreeState \<Rightarrow> TreeState \<Rightarrow> TreeState table \<Rightarrow> error option \<times> TreeState table"
where
  "gorm_Updates now m v db =
     (if ts_ID m = 0 then (Some ErrMissingWhereClause, db)
      else case gorm_stmt db of
             None \<Rightarrow> (Some (DBError ''update''), db)
           | Some db1 \<Rightarrow>
               (None,
                db1\<lparr>rows :=
                  map (\<lambda>r. if ts_ID r = ts_ID m then gorm_assign_nonzero now v r else r)
                    (rows db1)\<rparr>))"

text \<open>
  \<^verbatim>\<open>TreeStateRepositoryImpl.Update\<close>.  The struct literal handed to \<^verbatim>\<open>Updates\<close>
  names ten fields; \<^verbatim>\<open>CreatedAt\<close> and \<^verbatim>\<open>CreatedBy\<close> are not among them and are
  therefore zero.
\<close>

definition TreeStateRepositoryImpl_Update ::
  "Time \<Rightarrow> TreeState \<Rightarrow> TreeState table \<Rightarrow> error option \<times> TreeState table"
where
  "TreeStateRepositoryImpl_Update now treestate db =
     gorm_Updates now treestate
       \<lparr> ts_ID = ts_ID treestate,
         ts_StateType = ts_StateType treestate,
         ts_ParentNodeRefID = ts_ParentNodeRefID treestate,
         ts_ChildrenNodeRefIDs = ts_ChildrenNodeRefIDs treestate,
         ts_AppRefID = ts_AppRefID treestate,
         ts_Version = ts_Version treestate,
         ts_Name = ts_Name treestate,
         ts_Content = ts_Content treestate,
         ts_CreatedAt = 0,
         ts_CreatedBy = 0,
         ts_UpdatedAt = ts_UpdatedAt treestate,
         ts_UpdatedBy = ts_UpdatedBy treestate \<rparr>
       db"

section \<open>pkg/state: the KV-state service (part\_001)\<close>

text \<open>
  \<^verbatim>\<open>repository.KVState\<close> has the fields that the struct literals of
  \<^verbatim>\<open>CreateKVState\<close> and \<^verbatim>\<open>UpdateKVState\<close> name; \<^verbatim>\<open>KVStateDto\<close> is declared
  in the source with the same fields.
\<close>

record KVState =
  kv_ID :: int
  kv_StateType :: int
  kv_AppRefID :: int
  kv_Version :: int
  kv_Key :: string
  kv_Value :: string
  kv_CreatedAt :: Time
  kv_CreatedBy :: int
  kv_UpdatedAt :: Time
  kv_UpdatedBy :: int


text \<open>
  The service holds its repository as a value of the interface
  \<^verbatim>\<open>repository.KVStateRepository\<close>.  The interface is a record of the methods that
  the modelled service functions call, over a database state \<open>'db\<close> that each call
  takes and returns; a Go \<^verbatim>\<open>error\<close> result is \<open>Some\<close> error or \<open>Inl\<close> error.
\<close>

record 'db KVStateRepository =
  Create :: "KVState \<Rightarrow> 'db \<Rightarrow> error option \<times> 'db"
  Delete :: "int \<Rightarrow> 'db \<Rightarrow> error option \<times> 'db"
  Update :: "KVState \<Rightarrow> 'db \<Rightarrow> error option \<times> 'db"
  RetrieveAllTypeKVStatesByApp :: "int \<Rightarrow> int \<Rightarrow> 'db \<Rightarrow> (error + KVState list) \<times> 'db"





text \<open>
  \<^verbatim>\<open>ReleaseKVStateByApp\<close>.  The first loop stamps the retrieved records with the
  mainline version; the second loop, \<open>create_each\<close>, hands them to \<^verbatim>\<open>Create\<close> one
  by one and returns at the first error.  \<^verbatim>\<open>repository.APP_EDIT_VERSION\<close> is
  outside the given sources and is a parameter.
\<close>

fun create_each ::
  "'db KVStateRepository \<Rightarrow> KVState list \<Rightarrow> 'db \<Rightarrow> error option \<times> 'db"
where
  "create_each repo [] db = (None, db)"
| "create_each repo (kvstate # kvstates) db =
     (case Create repo kvstate db of
        (Some err, db1) \<Rightarrow> (Some err, db1)
      | (None, db1) \<Rightarrow> create_each repo kvstates db1)"

definition ReleaseKVStateByApp ::
  "'db KVStateRepository \<Rightarrow> int \<Rightarrow> ('uid, 'cfg, 'act) AppDto \<Rightarrow> 'db \<Rightarrow> error option \<times> 'db"
where
  "ReleaseKVStateByApp repo APP_EDIT_VERSION app db =
     (case RetrieveAllTypeKVStatesByApp repo (app_ID app) APP_EDIT_VERSION db of
        (Inl err, db1) \<Rightarrow> (Some err, db1)
      | (Inr kvstates, db1) \<Rightarrow>
          create_each repo
            (map (\<lambda>kvstate. kvstate\<lparr>kv_Version := app_MainlineVersion app\<rparr>) kvstates)
            db1)"


subsection \<open>The repository behind the service\<close>

text \<open>
  Modelled from the spec: the implementation of \<^verbatim>\<open>repository.KVStateRepository\<close>,
  which is outside the given sources.  The spec lists its contract (\<^verbatim>\<open>Create\<close>,
  \<^verbatim>\<open>Update\<close>, \<^verbatim>\<open>Delete\<close>, retrieval by application and version); the server
  builds it on the gorm database (part\_002), and the TreeState repository of
  part\_000 passes each call to one gorm statement.  The KV-state repository is
  modelled the same way, on a table of KV-state rows whose \<^verbatim>\<open>id\<close> column is the
  primary key:
  \<^item> \<^verbatim>\<open>Create\<close> is \<^verbatim>\<open>db.Create\<close>: a record whose ID is zero is stored under the
    next value of the key's sequence; a record whose ID is not zero is inserted
    under that key as given, and the insert fails when the key is stored already;
  \<^item> \<^verbatim>\<open>Update\<close> is \<^verbatim>\<open>db.Model(kvstate).Updates\<close> with a struct literal that, as
    in the TreeState repository, names every field but \<^verbatim>\<open>CreatedAt\<close> and
    \<^verbatim>\<open>CreatedBy\<close>: it selects the row of the record's key, fails with
    \<^verbatim>\<open>ErrMissingWhereClause\<close> when that key is zero, assigns the fields that are
    not zero and sets \<^verbatim>\<open>UpdatedAt\<close> to the current time \<open>now\<close>;
  \<^item> \<^verbatim>\<open>Delete\<close> removes the row of the key;
  \<^item> the retrieval returns the rows of an application and a version, of every
    state type, in table order.
  Each call is one statement, which fails when the database is failing and then
  changes nothing.
\<close>

definition next_serial :: "KVState list \<Rightarrow> int" where
  "next_serial rs = fold max (map kv_ID rs) 0 + 1"

definition table_Create :: "KVState \<Rightarrow> KVState table \<Rightarrow> error option \<times> KVState table" where
  "table_Create kvstate db =
     (case gorm_stmt db of
        None \<Rightarrow> (Some (DBError ''create''), db)
      | Some db1 \<Rightarrow>
          if kv_ID kvstate = 0
          then (None, db1\<lparr>rows := rows db1 @ [kvstate\<lparr>kv_ID := next_serial (rows db1)\<rparr>]\<rparr>)
          else if kv_ID kvstate \<in> set (map kv_ID (rows db1))
          then (Some ErrDuplicatedKey, db1)
          else (None, db1\<lparr>rows := rows db1 @ [kvstate]\<rparr>))"

definition table_Delete :: "int \<Rightarrow> KVState table \<Rightarrow> error option \<times> KVState table" where
  "table_Delete kvstateID db =
     (case gorm_stmt db of
        None \<Rightarrow> (Some (DBError ''delete''), db)
      | Some db1 \<Rightarrow> (None, db1\<lparr>rows := filter (\<lambda>r. kv_ID r \<noteq> kvstateID) (rows db1)\<rparr>))"

definition kv_assign_nonzero :: "Time \<Rightarrow> KVState \<Rightarrow> KVState \<Rightarrow> KVState" where
  "kv_assign_nonzero now v r =
     \<lparr> kv_ID = (if kv_ID v = 0 then kv_ID r else kv_ID v),
       kv_StateType = (if kv_StateType v = 0 then kv_StateType r else kv_StateType v),
       kv_AppRefID = (if kv_AppRefID v = 0 then kv_AppRefID r else kv_AppRefID v),
       kv_Version = (if kv_Version v = 0 then kv_Version r else kv_Version v),
       kv_Key = (if kv_Key v = [] then kv_Key r else kv_Key v),
       kv_Value = (if kv_Value v = [] then kv_Value r else kv_Value v),
       kv_CreatedAt = (if kv_CreatedAt v = 0 then kv_CreatedAt r else kv_CreatedAt v),
       kv_CreatedBy = (if kv_CreatedBy v = 0 then kv_CreatedBy r else kv_CreatedBy v),
       kv_UpdatedAt = now,
       kv_UpdatedBy = (if kv_UpdatedBy v = 0 then kv_UpdatedBy r else kv_UpdatedBy v) \<rparr>"

definition table_Update ::
  "Time \<Rightarrow> KVState \<Rightarrow> KVState table \<Rightarrow> error option \<times> KVState table"
where
  "table_Update now kvstate db =
     (if kv_ID kvstate = 0 then (Some ErrMissingWhereClause, db)
      else case gorm_stmt db of
             None \<Rightarrow> (Some (DBError ''update''), db)
           | Some db1 \<Rightarrow>
               (None,
                db1\<lparr>rows :=
                  map (\<lambda>r. if kv_ID r = kv_ID kvstate
                            then kv_assign_nonzero now
                                   (kvstate\<lparr>kv_CreatedAt := 0, kv_CreatedBy := 0\<rparr>) r
                            else r)
                    (rows db1)\<rparr>))"

definition table_RetrieveAllTypeKVStatesByApp ::
  "int \<Rightarrow> int \<Rightarrow> KVState table \<Rightarrow> (error + KVState list) \<times> KVState table"
where
  "table_RetrieveAllTypeKVStatesByApp apprefid version db =
     (case gorm_stmt db of
        None \<Rightarrow> (Inl (DBError ''retrieve''), db)
      | Some db1 \<Rightarrow>
          (Inr (filter (\<lambda>r. kv_AppRefID r = apprefid \<and> kv_Version r = version) (rows db1)),
           db1))"

definition table_repository :: "Time \<Rightarrow> KVState table KVStateRepository" where
  "table_repository now =
     \<lparr> Create = table_Create,
       Delete = table_Delete,
       Update = table_Update now,
       RetrieveAllTypeKVStatesByApp = table_RetrieveAllTypeKVStatesByApp \<rparr>"

text \<open>
  The rows of an application's edit version, and the uniqueness invariant of the
  spec's data model: no two stored rows carry the same (appRefID, version,
  stateType, key).
\<close>

definition edit_rows :: "int \<Rightarrow> int \<Rightarrow> KVState table \<Rightarrow> KVState list" where
  "edit_rows apprefid APP_EDIT_VERSION db =
     filter (\<lambda>r. kv_AppRefID r = apprefid \<and> kv_Version r = APP_EDIT_VERSION) (rows db)"



text \<open>
  \<open>answers db n\<close>: the database answers at least \<open>n\<close> more statements.
  \<open>spend n db\<close>: the database after \<open>n\<close> statements that changed no row.
  \<open>keyed db\<close>: no stored row has the key zero (the sequence of the key starts at
  one, and \<^verbatim>\<open>db.Create\<close> never inserts the key zero).
\<close>

definition answers :: "'r table \<Rightarrow> nat \<Rightarrow> bool" where
  "answers db n = (case failing db of None \<Rightarrow> True | Some b \<Rightarrow> n \<le> b)"

definition spend :: "nat \<Rightarrow> 'r table \<Rightarrow> 'r table" where
  "spend n db = db\<lparr>failing := map_option (\<lambda>b. b - n) (failing db)\<rparr>"

definition keyed :: "KVState table \<Rightarrow> bool" where
  "keyed db = (0 \<notin> set (map kv_ID (rows db)))"

subsection \<open>Two releases at once\<close>

text \<open>
  A release in steps of one repository call each: the retrieval, which also
  stamps the records, then one \<^verbatim>\<open>Create\<close> per record, until the list is done or
  a call fails.  Two releases of one application run interleaved under a
  schedule that says, step by step, which of the two makes its next call
  (\<open>True\<close> for the first).
\<close>

datatype release_progress = Idle | Copying "KVState list" | Finished "error option"

fun release_step ::
  "'db KVStateRepository \<Rightarrow> int \<Rightarrow> ('uid, 'cfg, 'act) AppDto \<Rightarrow> release_progress \<Rightarrow> 'db
   \<Rightarrow> release_progress \<times> 'db"
where
  "release_step repo APP_EDIT_VERSION app Idle db =
     (case RetrieveAllTypeKVStatesByApp repo (app_ID app) APP_EDIT_VERSION db of
        (Inl err, db1) \<Rightarrow> (Finished (Some err), db1)
      | (Inr kvstates, db1) \<Rightarrow>
          (Copying (map (\<lambda>kvstate. kvstate\<lparr>kv_Version := app_MainlineVersion app\<rparr>) kvstates),
           db1))"
| "release_step repo APP_EDIT_VERSION app (Copying []) db = (Finished None, db)"
| "release_step repo APP_EDIT_VERSION app (Copying (kvstate # kvstates)) db =
     (case Create repo kvstate db of
        (Some err, db1) \<Rightarrow> (Finished (Some err), db1)
      | (None, db1) \<Rightarrow> (Copying kvstates, db1))"
| "release_step repo APP_EDIT_VERSION app (Finished res) db = (Finished res, db)"

fun interleave ::
  "'db KVStateRepository \<Rightarrow> int \<Rightarrow> ('uid, 'cfg, 'act) AppDto \<Rightarrow> bool list
   \<Rightarrow> release_progress \<times> release_progress \<times> 'db \<Rightarrow> release_progress \<times> release_progress \<times> 'db"
where
  "interleave repo APP_EDIT_VERSION app [] s = s"
| "interleave repo APP_EDIT_VERSION app (first # schedule) (p1, p2, db) =
     (if first
      then (case release_step repo APP_EDIT_VERSION app p1 db of
              (q1, db1) \<Rightarrow> interleave repo APP_EDIT_VERSION app schedule (q1, p2, db1))
      else (case release_step repo APP_EDIT_VERSION app p2 db of
              (q2, db1) \<Rightarrow> interleave repo APP_EDIT_VERSION app schedule (p1, q2, db1)))"

section \<open>cmd: the recoverSnapshot handler of the websocket server (part\_002)\<close>

text \<open>
  The request as the handler reads it: the method, the two path variables and
  the \<^verbatim>\<open>Authorization\<close> header (\<^verbatim>\<open>Header.Get\<close> gives the empty string when the
  header is absent).  The response writer records what the handler writes: the
  headers added, the status set by \<^verbatim>\<open>WriteHeader\<close>, and the JSON objects encoded
  into the body, each a \<^verbatim>\<open>map[string]bool\<close>.  A handler that returns without
  writing leaves the body empty.
\<close>

record Request =
  req_Method :: string
  req_teamID :: string
  req_appID :: string
  req_Authorization :: string

record ResponseWriter =
  rw_Header :: "(string \<times> string) list"
  rw_Status :: "nat option"
  rw_Body :: "(string \<times> bool) list list"

record AttributeGroup =
  ag_TeamID :: int
  ag_UserAuthToken :: string
  ag_UnitType :: int
  ag_UnitID :: int

text \<open>
  The packages that the handler calls (\<^verbatim>\<open>idconvertor\<close>, \<^verbatim>\<open>supervisior\<close>,
  \<^verbatim>\<open>accesscontrol\<close>, \<^verbatim>\<open>ws\<close>, \<^verbatim>\<open>builderoperation\<close>) are outside the given
  sources.  Their functions and constants are the fields of one record; a Go
  result \<^verbatim>\<open>(bool, error)\<close> is a pair, a result \<^verbatim>\<open>(*Message, error)\<close> a sum.  The
  hub is a state \<open>'hub\<close> that \<^verbatim>\<open>SendFeedbackToTargetRoomAllClients\<close> takes and
  returns.
\<close>

record ('cid, 'msg, 'hub) collaborators =
  ConvertStringToInt :: "string \<Rightarrow> int"
  ValidateUserAccount :: "string \<Rightarrow> bool \<times> error option"
  CanManage :: "AttributeGroup \<Rightarrow> int \<Rightarrow> bool \<times> error option"
  UNIT_TYPE_APP :: int
  DEFAULT_UNIT_ID :: int
  ACTION_MANAGE_EDIT_APP :: int
  GetMessageClientIDForWebsocketServer :: 'cid
  NewEmptyMessage :: "int \<Rightarrow> 'cid \<Rightarrow> int \<Rightarrow> int \<Rightarrow> bool \<Rightarrow> error + 'msg"
  SIGNAL_FORCE_REFRESH :: int
  TARGET_WINDOW :: int
  ERROR_FORCE_REFRESH_WINDOW :: int
  SendFeedbackToTargetRoomAllClients :: "int \<Rightarrow> 'msg \<Rightarrow> int \<Rightarrow> int \<Rightarrow> 'hub \<Rightarrow> 'hub"

definition cors_headers :: "(string \<times> string) list" where
  "cors_headers =
     [ (''Access-Control-Allow-Origin'', ''*''),
       (''Access-Control-Allow-Credentials'', ''true''),
       (''Access-Control-Allow-Headers'', ''*''),
       (''Access-Control-Expose-Headers'',
        ''Content-Length, Access-Control-Allow-Origin, '' @
        ''Access-Control-Allow-Headers, Authorization, Cache-Control, Content-Language, Content-Type, illa-token''),
       (''Access-Control-Allow-Methods'', ''GET, POST, PUT, PATCH, DELETE, OPTIONS, HEAD''),
       (''Content-Type'', ''application/json'') ]"

text \<open>
  \<^verbatim>\<open>json.NewEncoder(w).Encode(map[string]bool{"ok": true})\<close>: one JSON object in the
  body; the first write fixes the status at 200 when none was set.
\<close>

definition Encode_ok :: "ResponseWriter \<Rightarrow> ResponseWriter" where
  "Encode_ok w =
     w\<lparr> rw_Status := (case rw_Status w of None \<Rightarrow> Some 200 | Some st \<Rightarrow> Some st),
        rw_Body := rw_Body w @ [[(''ok'', True)]] \<rparr>"

text \<open>The attribute group that the handler fills in before \<^verbatim>\<open>CanManage\<close>.\<close>

definition attributeGroup ::
  "('cid, 'msg, 'hub) collaborators \<Rightarrow> Request \<Rightarrow> AttributeGroup"
where
  "attributeGroup env r =
     \<lparr> ag_TeamID = ConvertStringToInt env (req_teamID r),
       ag_UserAuthToken = req_Authorization r,
       ag_UnitType = UNIT_TYPE_APP env,
       ag_UnitID = DEFAULT_UNIT_ID env \<rparr>"

text \<open>
  The handler registered for
  \<^verbatim>\<open>/api/v1/teams/{teamID}/apps/{appID}/recoverSnapshot\<close>, branch by branch.
\<close>

definition recoverSnapshot ::
  "('cid, 'msg, 'hub) collaborators \<Rightarrow> Request \<Rightarrow> ResponseWriter \<Rightarrow> 'hub \<Rightarrow> ResponseWriter \<times> 'hub"
where
  "recoverSnapshot env r w hub =
     (let w1 = w\<lparr>rw_Header := rw_Header w @ cors_headers\<rparr> in
      if req_Method r = ''OPTIONS'' then (w1\<lparr>rw_Status := Some 204\<rparr>, hub)
      else
        let teamIDInt = ConvertStringToInt env (req_teamID r);
            appIDInt = ConvertStringToInt env (req_appID r);
            authorizationToken = req_Authorization r
        in case ValidateUserAccount env authorizationToken of
             (validated, Some errInValidate) \<Rightarrow> (w1, hub)
           | (validated, None) \<Rightarrow>
               if \<not> validated then (w1, hub)
               else
                 (case CanManage env (attributeGroup env r) (ACTION_MANAGE_EDIT_APP env) of
                    (canManage, Some errInCheckAttr) \<Rightarrow> (w1, hub)
                  | (canManage, None) \<Rightarrow>
                      if \<not> canManage then (w1, hub)
                      else
                        (case NewEmptyMessage env appIDInt
                                (GetMessageClientIDForWebsocketServer env)
                                (SIGNAL_FORCE_REFRESH env) (TARGET_WINDOW env) True of
                           Inl errInNewWebSocketMessage \<Rightarrow> (Encode_ok w1, hub)
                         | Inr message \<Rightarrow>
                             (Encode_ok w1,
                              SendFeedbackToTargetRoomAllClients env
                                (ERROR_FORCE_REFRESH_WINDOW env) message teamIDInt appIDInt
                                hub))))"

text \<open>
  Both checks of the handler succeed: the token is validated without error and
  the permission check grants the capability without error.
\<close>

definition authorized :: "('cid, 'msg, 'hub) collaborators \<Rightarrow> Request \<Rightarrow> bool" where
  "authorized env r =
     (ValidateUserAccount env (req_Authorization r) = (True, None)
      \<and> CanManage env (attributeGroup env r) (ACTION_MANAGE_EDIT_APP env) = (True, None))"

subsection \<open>The message and the hub behind the handler\<close>

text \<open>
  Modelled from the spec: \<^verbatim>\<open>ws.Message\<close>, \<^verbatim>\<open>ws.NewEmptyMessage\<close> and the hub's
  \<^verbatim>\<open>SendFeedbackToTargetRoomAllClients\<close>, which are outside the given sources.
  The spec's envelope carries a signal kind, a target scope, a broadcast flag, the
  client identity and a payload; the constructor fills it from its arguments with
  an empty payload.  A room is the set of connections of one (team, application)
  pair; a server-originated signal is put, with its status code, on the outbound
  queue of every connection of the room.
\<close>

record Message =
  msg_APPID :: int
  msg_ClientID :: string
  msg_Signal :: int
  msg_Target :: int
  msg_NeedBroadcast :: bool
  msg_Payload :: "string list"

record Client =
  cl_TeamID :: int
  cl_APPID :: int
  cl_Send :: "(int \<times> Message) list"

definition room_NewEmptyMessage ::
  "int \<Rightarrow> string \<Rightarrow> int \<Rightarrow> int \<Rightarrow> bool \<Rightarrow> error + Message"
where
  "room_NewEmptyMessage appID clientID signal target needBroadcast =
     Inr \<lparr> msg_APPID = appID, msg_ClientID = clientID, msg_Signal = signal,
           msg_Target = target, msg_NeedBroadcast = needBroadcast, msg_Payload = [] \<rparr>"

definition room_SendFeedback ::
  "int \<Rightarrow> Message \<Rightarrow> int \<Rightarrow> int \<Rightarrow> Client list \<Rightarrow> Client list"
where
  "room_SendFeedback code message teamID appID hub =
     map (\<lambda>c. if cl_TeamID c = teamID \<and> cl_APPID c = appID
               then c\<lparr>cl_Send := cl_Send c @ [(code, message)]\<rparr> else c) hub"

section \<open>Example values\<close>

text \<open>
  Concrete inputs for the closed theorems below: an application 42 with mainline
  version 4 and edit version 0; two of its edit-version KV rows, and a row with
  the key zero; a payload with the tuple of the first row, and the payload with
  every field zero; a TreeState root node; and collaborators of the handler that
  accept the token \<open>''secret''\<close> for team 5, once with a message constructor that
  succeeds and once with one that fails.
\<close>

definition row_a :: KVState where
  "row_a = \<lparr> kv_ID = 1, kv_StateType = 1, kv_AppRefID = 42, kv_Version = 0, kv_Key = ''a'',
             kv_Value = ''1'', kv_CreatedAt = 10, kv_CreatedBy = 7, kv_UpdatedAt = 11,
             kv_UpdatedBy = 7 \<rparr>"

definition row_b :: KVState where
  "row_b = \<lparr> kv_ID = 2, kv_StateType = 1, kv_AppRefID = 42, kv_Version = 0, kv_Key = ''b'',
             kv_Value = ''2'', kv_CreatedAt = 12, kv_CreatedBy = 7, kv_UpdatedAt = 13,
             kv_UpdatedBy = 7 \<rparr>"




definition app42 :: "(unit, unit, unit) AppDto" where
  "app42 = \<lparr> app_ID = 42, app_UID = (), app_TeamID = 5, app_Name = ''demo'',
             app_ReleaseVersion = 4, app_MainlineVersion = 4, app_Deployed = True,
             app_Config = (), app_CreatedBy = 7, app_CreatedAt = 1, app_UpdatedBy = 7,
             app_UpdatedAt = 2, app_AppActivity = () \<rparr>"

definition node7 :: TreeState where
  "node7 = \<lparr> ts_ID = 3, ts_StateType = 1, ts_ParentNodeRefID = 0, ts_ChildrenNodeRefIDs = 7,
             ts_AppRefID = 42, ts_Version = 0, ts_Name = ''root'', ts_Content = ''{}'',
             ts_CreatedAt = 10, ts_CreatedBy = 7, ts_UpdatedAt = 11, ts_UpdatedBy = 7 \<rparr>"

definition room_env :: "(string, Message, Client list) collaborators" where
  "room_env =
     \<lparr> ConvertStringToInt = (\<lambda>s. if s = ''5'' then 5 else if s = ''42'' then 42 else 0),
       ValidateUserAccount =
         (\<lambda>token. if token = [] then (False, Some (AccountError ''token''))
                   else (token = ''secret'', None)),
       CanManage = (\<lambda>ag action. (ag_TeamID ag = 5, None)),
       UNIT_TYPE_APP = 1,
       DEFAULT_UNIT_ID = 0,
       ACTION_MANAGE_EDIT_APP = 2,
       GetMessageClientIDForWebsocketServer = ''server'',
       NewEmptyMessage = room_NewEmptyMessage,
       SIGNAL_FORCE_REFRESH = 3,
       TARGET_WINDOW = 4,
       ERROR_FORCE_REFRESH_WINDOW = 6,
       SendFeedbackToTargetRoomAllClients = room_SendFeedback \<rparr>"


definition room_hub :: "Client list" where
  "room_hub =
     [ \<lparr> cl_TeamID = 5, cl_APPID = 42, cl_Send = [] \<rparr>,
       \<lparr> cl_TeamID = 5, cl_APPID = 43, cl_Send = [] \<rparr>,
       \<lparr> cl_TeamID = 5, cl_APPID = 42, cl_Send = [] \<rparr> ]"

definition blank_response :: ResponseWriter where
  "blank_response = \<lparr> rw_Header = [], rw_Status = None, rw_Body = [] \<rparr>"

definition post_request :: "string \<Rightarrow> Request" where
  "post_request token =
     \<lparr> req_Method = ''POST'', req_teamID = ''5'', req_appID = ''42'',
       req_Authorization = token \<rparr>"

section \<open>Properties\<close>

subsection \<open>TreeState: the children column and the frame of Update\<close>

text \<open>
  Claim C8, as amended.  The \<^verbatim>\<open>ChildrenNodeRefIDs\<close> field of a TreeState record
  is declared \<^verbatim>\<open>int\<close> with column type \<^verbatim>\<open>bigint\<close>: for every record the
  \<^verbatim>\<open>children_node_ref_ids\<close> column holds one integer, the value of the field.
\<close>

theorem TreeState_children_column:
  "map_of (TreeState_values t) ''children_node_ref_ids''
     = Some (Bigint (ts_ChildrenNodeRefIDs t))"
  by (simp add: TreeState_values_def)

text \<open>
  Claim C8 as stated says that the field holds a list of references and not a
  single scalar.  For the root node \<open>node7\<close> the stored value is the single
  integer 7.
\<close>

theorem TreeState_children_counterexample:
  "map_of (TreeState_values node7) ''children_node_ref_ids'' = Some (Bigint 7)"
  by (simp add: TreeState_values_def node7_def)

lemma gorm_assign_nonzero_frame:
  assumes "ts_CreatedAt v = 0" "ts_CreatedBy v = 0" "ts_ID v = ts_ID r"
  shows "ts_ID (gorm_assign_nonzero now v r) = ts_ID r"
    and "ts_CreatedAt (gorm_assign_nonzero now v r) = ts_CreatedAt r"
    and "ts_CreatedBy (gorm_assign_nonzero now v r) = ts_CreatedBy r"
  using assms by (simp_all add: gorm_assign_nonzero_def)

lemma gorm_Updates_rows:
  "rows (snd (gorm_Updates now m v db)) = rows db \<or>
   rows (snd (gorm_Updates now m v db)) =
     map (\<lambda>r. if ts_ID r = ts_ID m then gorm_assign_nonzero now v r else r) (rows db)"
  by (simp add: gorm_Updates_def gorm_stmt_def split: option.splits nat.splits)

lemma selected_rows_frame:
  assumes "ts_CreatedAt v = 0" "ts_CreatedBy v = 0" "ts_ID v = k"
  shows "map ts_ID (map (\<lambda>r. if ts_ID r = k then gorm_assign_nonzero now v r else r) rs)
           = map ts_ID rs"
    and "map ts_CreatedAt (map (\<lambda>r. if ts_ID r = k then gorm_assign_nonzero now v r else r) rs)
           = map ts_CreatedAt rs"
    and "map ts_CreatedBy (map (\<lambda>r. if ts_ID r = k then gorm_assign_nonzero now v r else r) rs)
           = map ts_CreatedBy rs"
    and "filter (\<lambda>r. ts_ID r \<noteq> k)
           (map (\<lambda>r. if ts_ID r = k then gorm_assign_nonzero now v r else r) rs)
           = filter (\<lambda>r. ts_ID r \<noteq> k) rs"
  using assms by (induction rs) (simp_all add: gorm_assign_nonzero_frame)

text \<open>
  Claim C9.  \<^verbatim>\<open>TreeStateRepositoryImpl.Update\<close> leaves the identity and the audit
  fields \<^verbatim>\<open>CreatedAt\<close> and \<^verbatim>\<open>CreatedBy\<close> of every stored row as they were, row
  by row, whatever record it is given and whether or not the statement succeeds;
  so the only fields it can change are \<^verbatim>\<open>StateType\<close>, \<^verbatim>\<open>ParentNodeRefID\<close>,
  \<^verbatim>\<open>ChildrenNodeRefIDs\<close>, \<^verbatim>\<open>AppRefID\<close>, \<^verbatim>\<open>Version\<close>, \<^verbatim>\<open>Name\<close>,
  \<^verbatim>\<open>Content\<close>, \<^verbatim>\<open>UpdatedAt\<close> and \<^verbatim>\<open>UpdatedBy\<close>.  The rows of another
  identity are not changed at all.
\<close>

theorem TreeState_Update_frame:
  "map ts_ID (rows (snd (TreeStateRepositoryImpl_Update now treestate db))) = map ts_ID (rows db)
   \<and> map ts_CreatedAt (rows (snd (TreeStateRepositoryImpl_Update now treestate db)))
       = map ts_CreatedAt (rows db)
   \<and> map ts_CreatedBy (rows (snd (TreeStateRepositoryImpl_Update now treestate db)))
       = map ts_CreatedBy (rows db)
   \<and> filter (\<lambda>r. ts_ID r \<noteq> ts_ID treestate)
         (rows (snd (TreeStateRepositoryImpl_Update now treestate db)))
       = filter (\<lambda>r. ts_ID r \<noteq> ts_ID treestate) (rows db)"
proof -
  let ?v = "\<lparr> ts_ID = ts_ID treestate,
         ts_StateType = ts_StateType treestate,
         ts_ParentNodeRefID = ts_ParentNodeRefID treestate,
         ts_ChildrenNodeRefIDs = ts_ChildrenNodeRefIDs treestate,
         ts_AppRefID = ts_AppRefID treestate,
         ts_Version = ts_Version treestate,
         ts_Name = ts_Name treestate,
         ts_Content = ts_Content treestate,
         ts_CreatedAt = 0,
         ts_CreatedBy = 0,
         ts_UpdatedAt = ts_UpdatedAt treestate,
         ts_UpdatedBy = ts_UpdatedBy treestate \<rparr>"
  have v: "ts_CreatedAt ?v = 0" "ts_CreatedBy ?v = 0" "ts_ID ?v = ts_ID treestate"
    by simp_all
  have u: "TreeStateRepositoryImpl_Update now treestate db = gorm_Updates now treestate ?v db"
    by (simp add: TreeStateRepositoryImpl_Update_def)
  from gorm_Updates_rows [of now treestate ?v db]
  show ?thesis
  proof
    assume "rows (snd (gorm_Updates now treestate ?v db)) = rows db"
    then show ?thesis unfolding u by simp
  next
    assume "rows (snd (gorm_Updates now treestate ?v db)) =
      map (\<lambda>r. if ts_ID r = ts_ID treestate then gorm_assign_nonzero now ?v r else r) (rows db)"
    then show ?thesis unfolding u
      using selected_rows_frame [OF v, of now "rows db"] by simp
  qed
qed

text \<open>
  An update of \<open>node7\<close> that renames it and hands in other audit values: the
  stored row takes the new name, the updating user and the current time, and
  keeps its creation time, its creator and (the given value being zero) its
  children reference.
\<close>

lemma TreeState_Update_example:
  "TreeStateRepositoryImpl_Update 99
     (node7\<lparr>ts_Name := ''page'', ts_ChildrenNodeRefIDs := 0, ts_CreatedAt := 500,
              ts_CreatedBy := 9, ts_UpdatedBy := 8\<rparr>)
     \<lparr>rows = [node7], failing = None\<rparr>
   = (None,
      \<lparr>rows = [node7\<lparr>ts_Name := ''page'', ts_UpdatedAt := 99, ts_UpdatedBy := 8\<rparr>],
        failing = None\<rparr>)"
  by (simp add: TreeStateRepositoryImpl_Update_def gorm_Updates_def gorm_stmt_def
      gorm_assign_nonzero_def node7_def)

subsection \<open>The KV-state service on the gorm-backed table\<close>

lemma spend_None: "failing db = None \<Longrightarrow> spend n db = db"
  by (cases db) (simp add: spend_def)

lemma rows_spend: "rows (spend n db) = rows db"
  by (simp add: spend_def)

lemma failing_spend: "failing (spend n db) = map_option (\<lambda>b. b - n) (failing db)"
  by (simp add: spend_def)

lemma spend_spend: "spend 1 (spend 1 db) = spend 2 db"
  by (cases "failing db") (simp_all add: spend_def)

lemma gorm_stmt_spend:
  "gorm_stmt db = (if failing db = Some 0 then None else Some (spend 1 db))"
proof (cases "failing db")
  case None
  then show ?thesis by (simp add: gorm_stmt_def spend_None)
next
  case (Some b)
  then show ?thesis by (cases b) (simp_all add: gorm_stmt_def spend_def)
qed

lemma fold_max_ge: "(a::int) \<le> fold max xs a"
proof (induction xs arbitrary: a)
  case Nil
  show ?case by simp
next
  case (Cons y ys)
  have "a \<le> max y a" by simp
  also have "\<dots> \<le> fold max ys (max y a)" by (rule Cons.IH)
  finally show ?case by simp
qed

lemma fold_max_mem: "(x::int) \<in> set xs \<Longrightarrow> x \<le> fold max xs a"
proof (induction xs arbitrary: a)
  case Nil
  then show ?case by simp
next
  case (Cons y ys)
  show ?case
  proof (cases "x = y")
    case True
    have "y \<le> max y a" by simp
    also have "\<dots> \<le> fold max ys (max y a)" by (rule fold_max_ge)
    finally show ?thesis using True by simp
  next
    case False
    with Cons.prems have "x \<in> set ys" by simp
    then show ?thesis using Cons.IH by simp
  qed
qed

lemma next_serial_fresh: "next_serial rs \<notin> set (map kv_ID rs)"
proof
  assume "next_serial rs \<in> set (map kv_ID rs)"
  then have "next_serial rs \<le> fold max (map kv_ID rs) 0" by (rule fold_max_mem)
  then show False by (simp add: next_serial_def)
qed

lemma next_serial_pos: "0 < next_serial rs"
  using fold_max_ge [of 0 "map kv_ID rs"] by (simp add: next_serial_def)

lemma retrieve_table:
  "table_RetrieveAllTypeKVStatesByApp a v db =
     (if failing db = Some 0 then (Inl (DBError ''retrieve''), db)
      else (Inr (edit_rows a v db), spend 1 db))"
  by (simp add: table_RetrieveAllTypeKVStatesByApp_def gorm_stmt_spend edit_rows_def rows_spend)

lemma table_Create_collision:
  assumes "kv_ID k \<noteq> 0" and "kv_ID k \<in> set (map kv_ID (rows db))"
  shows "table_Create k db =
     (if failing db = Some 0 then (Some (DBError ''create''), db)
      else (Some ErrDuplicatedKey, spend 1 db))"
  using assms by (simp add: table_Create_def gorm_stmt_spend rows_spend)

lemma release_on_table:
  fixes app :: "('uid, 'cfg, 'act) AppDto"
  assumes c: "Create repo = table_Create"
    and r: "RetrieveAllTypeKVStatesByApp repo = table_RetrieveAllTypeKVStatesByApp"
    and k: "keyed db"
  shows "ReleaseKVStateByApp repo ev app db =
     (if failing db = Some 0 then (Some (DBError ''retrieve''), db)
      else if edit_rows (app_ID app) ev db = [] then (None, spend 1 db)
      else if failing db = Some 1 then (Some (DBError ''create''), spend 1 db)
      else (Some ErrDuplicatedKey, spend 2 db))"
proof (cases "failing db = Some 0")
  case True
  then show ?thesis by (simp add: ReleaseKVStateByApp_def r retrieve_table)
next
  case False
  show ?thesis
  proof (cases "edit_rows (app_ID app) ev db")
    case Nil
    with False show ?thesis by (simp add: ReleaseKVStateByApp_def r retrieve_table)
  next
    case (Cons e es)
    then have "e \<in> set (rows db)"
      by (metis edit_rows_def filter_is_subset list.set_intros(1) subsetD)
    with k have id: "kv_ID e \<noteq> 0" "kv_ID e \<in> set (map kv_ID (rows (spend 1 db)))"
      by (auto simp: keyed_def rows_spend)
    let ?k = "e\<lparr>kv_Version := app_MainlineVersion app\<rparr>"
    have col: "table_Create ?k (spend 1 db) =
       (if failing (spend 1 db) = Some 0 then (Some (DBError ''create''), spend 1 db)
        else (Some ErrDuplicatedKey, spend 1 (spend 1 db)))"
      using id by (intro table_Create_collision) simp_all
    have f1: "failing (spend 1 db) = Some 0 \<longleftrightarrow> failing db = Some 1"
      using False by (cases "failing db") (auto simp: failing_spend)
    show ?thesis
      using False Cons col f1 spend_spend [of db]
      by (simp add: ReleaseKVStateByApp_def r retrieve_table c)
  qed
qed

text \<open>
  Claim C1, where the code departs from it.  On a table whose stored keys are not
  zero, a release of an application with at least one edit-version row, on a
  database that answers, creates no row: the first record handed to \<^verbatim>\<open>Create\<close>
  still carries the key of the stored row it was read from, the insert collides,
  and the release returns that error after two statements, the table unchanged.
\<close>

theorem ReleaseKVStateByApp_key_collision:
  fixes app :: "('uid, 'cfg, 'act) AppDto"
  assumes k: "keyed db" and n: "edit_rows (app_ID app) ev db \<noteq> []" and a: "answers db 2"
  shows "ReleaseKVStateByApp (table_repository now) ev app db = (Some ErrDuplicatedKey, spend 2 db)
       \<and> rows (snd (ReleaseKVStateByApp (table_repository now) ev app db)) = rows db"
proof -
  have c: "Create (table_repository now) = table_Create"
    and r: "RetrieveAllTypeKVStatesByApp (table_repository now) = table_RetrieveAllTypeKVStatesByApp"
    by (simp_all add: table_repository_def)
  from a have f: "failing db \<noteq> Some 0" "failing db \<noteq> Some 1"
    by (auto simp: answers_def)
  show ?thesis
    using n f by (simp add: release_on_table [OF c r k] rows_spend)
qed

theorem ReleaseKVStateByApp_key_collision_witness:
  "keyed \<lparr>rows = [row_a, row_b], failing = None\<rparr>
   \<and> edit_rows (app_ID app42) 0 \<lparr>rows = [row_a, row_b], failing = None\<rparr> = [row_a, row_b]
   \<and> answers \<lparr>rows = [row_a, row_b], failing = None\<rparr> 2
   \<and> ReleaseKVStateByApp (table_repository 50) 0 app42 \<lparr>rows = [row_a, row_b], failing = None\<rparr>
       = (Some ErrDuplicatedKey, \<lparr>rows = [row_a, row_b], failing = None\<rparr>)"
  using ReleaseKVStateByApp_key_collision
    [where db = "\<lparr>rows = [row_a, row_b], failing = None\<rparr>" and app = app42 and ev = 0 and now = 50]
  by (simp add: keyed_def edit_rows_def answers_def spend_def app42_def row_a_def row_b_def)















subsection \<open>Two releases of one application\<close>

text \<open>
  The steps of one release, run alone until it has finished, give the result and
  the database of \<^verbatim>\<open>ReleaseKVStateByApp\<close>.
\<close>

lemma finished_alone:
  "interleave repo ev app (replicate n True) (Finished res, p2, db) = (Finished res, p2, db)"
  by (induction n) simp_all

lemma copying_alone:
  "interleave repo ev app (replicate (Suc (length ks)) True) (Copying ks, p2, db)
     = (Finished (fst (create_each repo ks db)), p2, snd (create_each repo ks db))"
proof (induction ks arbitrary: db)
  case Nil
  show ?case by simp
next
  case (Cons k ks)
  show ?case
  proof (cases "Create repo k db")
    case (Pair res db1)
    show ?thesis
    proof (cases res)
      case None
      with Pair Cons.IH [of db1] show ?thesis by simp
    next
      case (Some err)
      with Pair finished_alone [of repo ev app "Suc (length ks)" "Some err" p2 db1]
      show ?thesis by simp
    qed
  qed
qed

lemma release_alone:
  fixes app :: "('uid, 'cfg, 'act) AppDto"
  shows "\<exists>n. interleave repo ev app (replicate n True) (Idle, p2, db)
     = (Finished (fst (ReleaseKVStateByApp repo ev app db)), p2,
        snd (ReleaseKVStateByApp repo ev app db))"
proof (cases "RetrieveAllTypeKVStatesByApp repo (app_ID app) ev db")
  case (Pair res db1)
  show ?thesis
  proof (cases res)
    case (Inl err)
    with Pair have "interleave repo ev app (replicate 1 True) (Idle, p2, db)
       = (Finished (fst (ReleaseKVStateByApp repo ev app db)), p2,
          snd (ReleaseKVStateByApp repo ev app db))"
      by (simp add: ReleaseKVStateByApp_def)
    then show ?thesis ..
  next
    case (Inr kvstates)
    let ?ks = "map (\<lambda>kvstate. kvstate\<lparr>kv_Version := app_MainlineVersion app\<rparr>) kvstates"
    from Pair Inr copying_alone [of repo ev app ?ks p2 db1]
    have "interleave repo ev app (replicate (Suc (Suc (length ?ks))) True) (Idle, p2, db)
       = (Finished (fst (ReleaseKVStateByApp repo ev app db)), p2,
          snd (ReleaseKVStateByApp repo ev app db))"
      by (simp add: ReleaseKVStateByApp_def)
    then show ?thesis ..
  qed
qed

lemma release_step_error:
  fixes app :: "('uid, 'cfg, 'act) AppDto"
  assumes c: "\<And>k d. fst (Create repo k d) \<noteq> Some e"
    and r: "\<And>a v d. fst (RetrieveAllTypeKVStatesByApp repo a v d) \<noteq> Inl e"
    and p: "p \<noteq> Finished (Some e)"
  shows "fst (release_step repo ev app p db) \<noteq> Finished (Some e)"
proof (cases p)
  case Idle
  with r [of "app_ID app" ev db] show ?thesis
    by (auto split: prod.splits sum.splits)
next
  case (Copying ks)
  show ?thesis
  proof (cases ks)
    case Nil
    with Copying show ?thesis by simp
  next
    case (Cons k ks')
    with Copying c [of k db] show ?thesis
      by (auto split: prod.splits option.splits)
  qed
next
  case (Finished res)
  with p show ?thesis by simp
qed

lemma interleave_error:
  fixes app :: "('uid, 'cfg, 'act) AppDto"
  assumes c: "\<And>k d. fst (Create repo k d) \<noteq> Some e"
    and r: "\<And>a v d. fst (RetrieveAllTypeKVStatesByApp repo a v d) \<noteq> Inl e"
  shows "p1 \<noteq> Finished (Some e) \<Longrightarrow> p2 \<noteq> Finished (Some e) \<Longrightarrow>
     fst (interleave repo ev app schedule (p1, p2, db)) \<noteq> Finished (Some e)
     \<and> fst (snd (interleave repo ev app schedule (p1, p2, db))) \<noteq> Finished (Some e)"
proof (induction schedule arbitrary: p1 p2 db)
  case Nil
  then show ?case by simp
next
  case (Cons first schedule)
  show ?case
  proof (cases first)
    case True
    obtain q1 db1 where s: "release_step repo ev app p1 db = (q1, db1)" by (cases "release_step repo ev app p1 db")
    from release_step_error [OF c r Cons.prems(1), of ev app db] s
    have "q1 \<noteq> Finished (Some e)" by simp
    from Cons.IH [OF this Cons.prems(2), of db1] True s show ?thesis by simp
  next
    case False
    obtain q2 db1 where s: "release_step repo ev app p2 db = (q2, db1)" by (cases "release_step repo ev app p2 db")
    from release_step_error [OF c r Cons.prems(2), of ev app db] s
    have "q2 \<noteq> Finished (Some e)" by simp
    from Cons.IH [OF Cons.prems(1) this, of db1] False s show ?thesis by simp
  qed
qed

text \<open>
  Claim C5 as stated says that of two concurrent releases of an application one
  succeeds and the other fails with \<open>ReleaseConflict\<close>.  When the two releases
  make their repository calls in turn, both are in progress after the two
  retrievals, and both end with the duplicate-key error; for an application
  without stored rows both end without error.
\<close>

theorem two_releases_counterexample:
  "interleave (table_repository 50) 0 app42 [True, False]
      (Idle, Idle, \<lparr>rows = [row_a, row_b], failing = None\<rparr>)
     = (Copying [row_a\<lparr>kv_Version := 4\<rparr>, row_b\<lparr>kv_Version := 4\<rparr>],
        Copying [row_a\<lparr>kv_Version := 4\<rparr>, row_b\<lparr>kv_Version := 4\<rparr>],
        \<lparr>rows = [row_a, row_b], failing = None\<rparr>)
   \<and> interleave (table_repository 50) 0 app42 [True, False, True, False]
      (Idle, Idle, \<lparr>rows = [row_a, row_b], failing = None\<rparr>)
     = (Finished (Some ErrDuplicatedKey), Finished (Some ErrDuplicatedKey),
        \<lparr>rows = [row_a, row_b], failing = None\<rparr>)
   \<and> interleave (table_repository 50) 0 app42 [True, False, True, False]
      (Idle, Idle, \<lparr>rows = [], failing = None\<rparr>)
     = (Finished None, Finished None, \<lparr>rows = [], failing = None\<rparr>)"
  by (simp add: app42_def row_a_def row_b_def table_repository_def
      table_RetrieveAllTypeKVStatesByApp_def table_Create_def gorm_stmt_def)

text \<open>
  Claim C5, as amended.  \<^verbatim>\<open>ReleaseKVStateByApp\<close> holds no lock: in every
  interleaving of the repository calls of two releases of an application, a
  release ends only with an error that one of the repository's calls returns, or
  with none.  An error that no call of the repository returns, such as
  \<open>ReleaseConflict\<close>, is the result of neither release.
\<close>

theorem releases_return_repository_errors_only:
  fixes app :: "('uid, 'cfg, 'act) AppDto"
  assumes c: "\<And>k d. fst (Create repo k d) \<noteq> Some e"
    and r: "\<And>a v d. fst (RetrieveAllTypeKVStatesByApp repo a v d) \<noteq> Inl e"
  shows "fst (interleave repo ev app schedule (Idle, Idle, db)) \<noteq> Finished (Some e)
     \<and> fst (snd (interleave repo ev app schedule (Idle, Idle, db))) \<noteq> Finished (Some e)"
  by (rule interleave_error [OF c r]) simp_all

theorem releases_return_repository_errors_only_witness:
  "(\<forall>k d. fst (Create (table_repository 50) k d) \<noteq> Some ReleaseConflict)
   \<and> (\<forall>a v d. fst (RetrieveAllTypeKVStatesByApp (table_repository 50) a v d) \<noteq> Inl ReleaseConflict)
   \<and> fst (interleave (table_repository 50) 0 app42 [True, False, True, False]
            (Idle, Idle, \<lparr>rows = [row_a, row_b], failing = None\<rparr>))
       \<noteq> Finished (Some ReleaseConflict)
   \<and> fst (snd (interleave (table_repository 50) 0 app42 [True, False, True, False]
            (Idle, Idle, \<lparr>rows = [row_a, row_b], failing = None\<rparr>)))
       \<noteq> Finished (Some ReleaseConflict)"
proof -
  have c: "fst (Create (table_repository 50) k d) \<noteq> Some ReleaseConflict" for k d
    by (simp add: table_repository_def table_Create_def split: option.splits)
  have r: "fst (RetrieveAllTypeKVStatesByApp (table_repository 50) a v d) \<noteq> Inl ReleaseConflict"
    for a v d
    by (simp add: table_repository_def table_RetrieveAllTypeKVStatesByApp_def split: option.splits)
  from releases_return_repository_errors_only
    [where repo = "table_repository 50" and e = ReleaseConflict and ev = 0 and app = app42
       and schedule = "[True, False, True, False]"
       and db = "\<lparr>rows = [row_a, row_b], failing = None\<rparr>", OF c r]
  show ?thesis using c r by blast
qed

subsection \<open>The recoverSnapshot handler\<close>

text \<open>
  Claim C3 as stated says that every request is answered with the body
  \<^verbatim>\<open>{"ok": true}\<close>, also when the token fails validation.  For a request whose
  token the identity check does not validate, the handler returns without writing
  a body.
\<close>

theorem recoverSnapshot_unauthorized_counterexample:
  "fst (ValidateUserAccount room_env (req_Authorization (post_request ''guess''))) = False
   \<and> rw_Body (fst (recoverSnapshot room_env (post_request ''guess'') blank_response room_hub)) = []
   \<and> rw_Body (fst (recoverSnapshot room_env (post_request ''guess'') blank_response room_hub))
       \<noteq> [[(''ok'', True)]]"
  by (simp add: recoverSnapshot_def room_env_def post_request_def blank_response_def)

text \<open>
  Claim C3, as amended.  The handler adds its six headers to every response.  It
  writes the body \<^verbatim>\<open>{"ok": true}\<close> exactly when the method is not \<^verbatim>\<open>OPTIONS\<close>
  and the token validation and the permission check both succeed without error,
  whether or not the message can then be built; that write fixes the status at
  200 when none was set.  An \<^verbatim>\<open>OPTIONS\<close> request gets the status 204 and no
  body.  In every other case the handler writes neither a body nor a status.
\<close>

theorem recoverSnapshot_response:
  "rw_Header (fst (recoverSnapshot env r w hub)) = rw_Header w @ cors_headers
   \<and> rw_Body (fst (recoverSnapshot env r w hub)) =
       (if req_Method r \<noteq> ''OPTIONS'' \<and> authorized env r
        then rw_Body w @ [[(''ok'', True)]] else rw_Body w)
   \<and> rw_Status (fst (recoverSnapshot env r w hub)) =
       (if req_Method r = ''OPTIONS'' then Some 204
        else if authorized env r
        then (case rw_Status w of None \<Rightarrow> Some 200 | Some st \<Rightarrow> Some st)
        else rw_Status w)"
  by (simp add: recoverSnapshot_def authorized_def Encode_ok_def Let_def
      split: prod.splits option.splits sum.splits)

theorem recoverSnapshot_response_witness:
  "req_Method (post_request ''secret'') \<noteq> ''OPTIONS''
   \<and> authorized room_env (post_request ''secret'')
   \<and> fst (recoverSnapshot room_env (post_request ''secret'') blank_response room_hub)
       = \<lparr> rw_Header = cors_headers, rw_Status = Some 200, rw_Body = [[(''ok'', True)]] \<rparr>
   \<and> \<not> authorized room_env (post_request ''guess'')
   \<and> fst (recoverSnapshot room_env (post_request ''guess'') blank_response room_hub)
       = \<lparr> rw_Header = cors_headers, rw_Status = None, rw_Body = [] \<rparr>
   \<and> fst (recoverSnapshot room_env ((post_request ''guess'')\<lparr>req_Method := ''OPTIONS''\<rparr>)
             blank_response room_hub)
       = \<lparr> rw_Header = cors_headers, rw_Status = Some 204, rw_Body = [] \<rparr>"
  using recoverSnapshot_response [of room_env "post_request ''secret''" blank_response room_hub]
    recoverSnapshot_response [of room_env "post_request ''guess''" blank_response room_hub]
    recoverSnapshot_response [of room_env "(post_request ''guess'')\<lparr>req_Method := ''OPTIONS''\<rparr>"
      blank_response room_hub]
  by (simp add: authorized_def room_env_def post_request_def blank_response_def
      attributeGroup_def recoverSnapshot_def Encode_ok_def)




subsection \<open>NewAppDtoForExport\<close>

text \<open>
  Claim C10.  For every input \<^verbatim>\<open>AppDto\<close> and every identifier conversion, the export
  form has \<^verbatim>\<open>Deployed\<close> equal to false whatever the input's deployment flag is;
  \<^verbatim>\<open>Name\<close>, \<^verbatim>\<open>ReleaseVersion\<close>, \<^verbatim>\<open>MainlineVersion\<close>, \<^verbatim>\<open>Config\<close> and the
  audit times are copied from the input; and \<^verbatim>\<open>ID\<close>, \<^verbatim>\<open>TeamID\<close>, \<^verbatim>\<open>CreatedBy\<close>
  and \<^verbatim>\<open>UpdatedBy\<close> are the string forms of the input's integers.
\<close>

theorem NewAppDtoForExport_fields:
  fixes a :: "('uid, 'cfg, 'act) AppDto"
  shows "exp_Deployed (NewAppDtoForExport conv (a\<lparr>app_Deployed := d\<rparr>)) = False
       \<and> NewAppDtoForExport conv (a\<lparr>app_Deployed := d\<rparr>) = NewAppDtoForExport conv a
       \<and> exp_Name (NewAppDtoForExport conv a) = app_Name a
       \<and> exp_ReleaseVersion (NewAppDtoForExport conv a) = app_ReleaseVersion a
       \<and> exp_MainlineVersion (NewAppDtoForExport conv a) = app_MainlineVersion a
       \<and> exp_Config (NewAppDtoForExport conv a) = app_Config a
       \<and> exp_CreatedAt (NewAppDtoForExport conv a) = app_CreatedAt a
       \<and> exp_UpdatedAt (NewAppDtoForExport conv a) = app_UpdatedAt a
       \<and> exp_UID (NewAppDtoForExport conv a) = app_UID a
       \<and> exp_AppActivity (NewAppDtoForExport conv a) = app_AppActivity a
       \<and> exp_ID (NewAppDtoForExport conv a) = conv (app_ID a)
       \<and> exp_TeamID (NewAppDtoForExport conv a) = conv (app_TeamID a)
       \<and> exp_CreatedBy (NewAppDtoForExport conv a) = conv (app_CreatedBy a)
       \<and> exp_UpdatedBy (NewAppDtoForExport conv a) = conv (app_UpdatedBy a)"
  by (simp add: NewAppDtoForExport_def)

end
